theory Spec2Isabelle
  imports Main
begin

section \<open>JavaScript values and strings\<close>

text \<open>
  The elements of \<open>messageArgs\<close> are arbitrary JavaScript values; the ones that occur in
  rule messages are modelled here. Numbers are restricted to integers.
\<close>

datatype jsval = JUndefined | JNull | JBool bool | JNum int | JStr string

fun string_of_nat :: "nat \<Rightarrow> string" where
  "string_of_nat n =
     (if n < 10 then [''0123456789'' ! n]
      else string_of_nat (n div 10) @ [''0123456789'' ! (n mod 10)])"

declare string_of_nat.simps [simp del]

text \<open>\<open>String(arg)\<close> of JavaScript.\<close>

fun js_String :: "jsval \<Rightarrow> string" where
  "js_String JUndefined = ''undefined''"
| "js_String JNull = ''null''"
| "js_String (JBool b) = (if b then ''true'' else ''false'')"
| "js_String (JNum i) = (if i < 0 then CHR ''-'' # string_of_nat (nat (- i)) else string_of_nat (nat i))"
| "js_String (JStr s) = s"

section \<open>\<open>printfLike\<close> (report.mjs)\<close>

text \<open>
  \<open>String.prototype.replace\<close> with a string replacement expands the patterns
  \<open>$$\<close>, \<open>$&\<close>, \<open>$`\<close> and \<open>$'\<close> of the replacement (the regular expression
  \<open>/%[ds]/\<close> has no capture group, so \<open>$1\<close> and \<open>$<name>\<close> stay as they are).
  The arguments are the matched text, the text before the match, the text after it and
  the replacement.
\<close>

fun getSubstitution :: "string \<Rightarrow> string \<Rightarrow> string \<Rightarrow> string \<Rightarrow> string" where
  "getSubstitution m b a [] = []"
| "getSubstitution m b a [c] = [c]"
| "getSubstitution m b a (c # d # r) =
     (if c = CHR ''$'' \<and> d = CHR ''$'' then CHR ''$'' # getSubstitution m b a r
      else if c = CHR ''$'' \<and> d = CHR ''&'' then m @ getSubstitution m b a r
      else if c = CHR ''$'' \<and> d = CHR 0x60 then b @ getSubstitution m b a r
      else if c = CHR ''$'' \<and> d = CHR 0x27 then a @ getSubstitution m b a r
      else c # getSubstitution m b a (d # r))"

text \<open>
  \<open>result.replace(/%[ds]/, repl)\<close>: the regular expression is not global, so only the
  leftmost \<open>%d\<close> or \<open>%s\<close> is replaced. The first argument is the text already scanned.
\<close>

fun replaceFirst :: "string \<Rightarrow> string \<Rightarrow> string \<Rightarrow> string" where
  "replaceFirst b [] repl = b"
| "replaceFirst b [c] repl = b @ [c]"
| "replaceFirst b (c # d # t) repl =
     (if c = CHR ''%'' \<and> (d = CHR ''d'' \<or> d = CHR ''s'')
      then b @ getSubstitution [c, d] b t repl @ t
      else replaceFirst (b @ [c]) (d # t) repl)"

definition js_replace :: "string \<Rightarrow> string \<Rightarrow> string" where
  "js_replace s repl = replaceFirst [] s repl"

text \<open>\<open>args.reduce((result, arg) => result.replace(/%[ds]/, String(arg)), format)\<close>\<close>

definition printfLike :: "string \<Rightarrow> jsval list \<Rightarrow> string" where
  "printfLike format args = foldl (\<lambda>result arg. js_replace result (js_String arg)) format args"

datatype message = MsgString string | MsgFunction "jsval list \<Rightarrow> string"

text \<open>\<open>buildWarningMessage\<close>: \<open>messageArgs || []\<close>, then the string or the function.\<close>

definition buildWarningMessage :: "message \<Rightarrow> jsval list option \<Rightarrow> string" where
  "buildWarningMessage msg messageArgs =
     (let args = (case messageArgs of None \<Rightarrow> [] | Some a \<Rightarrow> a)
      in case msg of
           MsgString format \<Rightarrow> printfLike format args
         | MsgFunction f \<Rightarrow> f args)"


section \<open>Data model\<close>

record position =
  line :: int
  column :: int

text \<open>A source range \<open>{start, end}\<close>, as \<open>node.rangeBy\<close> returns it.\<close>

record range =
  r_start :: position
  r_end :: position

text \<open>
  \<open>DisabledRange\<close>: \<open>end\<close> and \<open>rules\<close> may be \<open>undefined\<close> (\<open>None\<close>).
\<close>

record disabledRange =
  dr_start :: int
  dr_end :: "int option"
  dr_rules :: "string list option"

text \<open>
  A postcss node, as far as \<open>report\<close> uses it: its \<open>rangeBy({index, endIndex})\<close> method
  (an external collaborator, taken as a parameter of the node).
\<close>

record node =
  rangeBy :: "int option \<Rightarrow> int option \<Rightarrow> range"

text \<open>A severity option is a literal or a function of the message arguments.\<close>

datatype severityOption = SevLit string | SevFn "jsval list \<Rightarrow> string option"

record config =
  cfg_fix :: bool
  cfg_defaultSeverity :: "string option"
  cfg_ignoreDisables :: bool

text \<open>
  The problem passed to \<open>report\<close>. A number that may be \<open>undefined\<close> is an \<open>int option\<close>;
  the fix callback is identified by a number (its effect on the document is outside this
  program, its invocation is recorded in \<open>calls\<close> below).
\<close>

record problem =
  p_index :: "int option"
  p_endIndex :: "int option"
  p_start :: "position option"
  p_end :: "position option"
  p_fix :: "nat option"
  p_line :: "int option"
  p_message :: message
  p_messageArgs :: "jsval list option"
  p_node :: "node option"
  p_ruleName :: string
  p_severity :: "severityOption option"
  p_word :: "string option"

text \<open>The second argument of \<open>result.warn\<close>.\<close>

record warningProperties =
  wp_severity :: "string option"
  wp_rule :: string
  wp_node :: "node option"
  wp_start :: "position option"
  wp_index :: "int option"
  wp_end :: "position option"
  wp_endIndex :: "int option"
  wp_word :: "string option"

text \<open>\<open>FixerData\<close> of fix.mjs and report.mjs: \<open>{range, fixed}\<close>.\<close>

record fixerData =
  fd_range :: range
  fd_fixed :: bool

text \<open>
  An entry of \<open>fixersData\<close> as \<open>applyFixes\<close> reads it: \<open>{source, callback, args, unfixable}\<close>.
  The callback is its identity and the function from its argument to the new source range.
\<close>

record fixEntry =
  fe_source :: range
  fe_callback_id :: nat
  fe_callback :: "jsval \<Rightarrow> range"
  fe_args :: jsval
  fe_unfixable :: bool

text \<open>
  \<open>result.stylelint\<close> together with the warnings of the result. The disabled ranges are
  mutable objects shared by reference: \<open>heap\<close> maps the address of a range object to its
  contents, and \<open>disabledRanges\<close> maps a key to the addresses in its array, in the order of
  \<open>Object.values\<close>. Objects keyed by rule name are association lists in key order.
  \<open>disabledWarnings\<close> and \<open>customMessages\<close> identify \<open>undefined\<close> with the empty
  collection. \<open>messages\<close> are the warnings attached by \<open>result.warn\<close>, \<open>calls\<close> the fix
  callbacks invoked so far. The type parameter is the type of the entries of \<open>fixersData\<close>.
\<close>

record 'f stylelint =
  config :: config
  ruleSeverities :: "(string \<times> severityOption) list"
  quiet :: bool
  heap :: "nat \<Rightarrow> disabledRange"
  disabledRanges :: "(string \<times> nat list) list option"
  disabledWarnings :: "(string \<times> int) list"
  stylelintError :: bool
  stylelintWarning :: bool
  customMessages :: "(string \<times> message) list"
  fixersData :: "(string \<times> 'f list) list"
  messages :: "(string \<times> warningProperties) list"
  calls :: "nat list"

text \<open>
  The errors thrown: the two errors of \<open>report\<close>, with the rule name, and the
  \<open>TypeError\<close> of JavaScript for a property read on \<open>undefined\<close>.
\<close>

datatype error = FixRequiresRange string | MissingLine string | TypeError


text \<open>
  Modelled from the spec: constants.mjs is missing. \<open>RULE_NAME_ALL\<close> is the wildcard key
  of the specification, the key that both \<open>applyFix\<close> and \<open>applyFixes\<close> destructure as
  \<open>all\<close>.
\<close>

definition RULE_NAME_ALL :: string where
  "RULE_NAME_ALL = ''all''"


section \<open>Disabled ranges and fixer data\<close>

text \<open>\<open>disabledRanges: { all = [] }\<close>: the array under the key \<open>all\<close>, empty when missing.\<close>

definition allRanges :: "(string \<times> nat list) list \<Rightarrow> nat list" where
  "allRanges drs = (case map_of drs RULE_NAME_ALL of None \<Rightarrow> [] | Some a \<Rightarrow> a)"

text \<open>\<open>cb = ({ start, end }) => [start, end]\<close> copies the two numbers out of the object.\<close>

definition cb :: "disabledRange \<Rightarrow> int \<times> int option" where
  "cb r = (dr_start r, dr_end r)"

text \<open>
  \<open>isInRange\<close>, for the start line of the fix:
  \<open>line >= start && (!end || line <= end)\<close>; \<open>!end\<close> holds for \<open>undefined\<close> and for \<open>0\<close>.
\<close>

fun isInRange :: "int \<Rightarrow> int \<times> int option \<Rightarrow> bool" where
  "isInRange l (start, None) = (l \<ge> start)"
| "isInRange l (start, Some e) = (l \<ge> start \<and> (e = 0 \<or> l \<le> e))"

text \<open>
  Appending to \<open>fixersData[name]\<close>: a missing key is created after the existing ones
  (\<open>addFixerData\<close> of fix.mjs; the same update is written inline in report.mjs).
\<close>

fun pushFixerData :: "(string \<times> 'f list) list \<Rightarrow> string \<Rightarrow> 'f \<Rightarrow> (string \<times> 'f list) list" where
  "pushFixerData [] name d = [(name, [d])]"
| "pushFixerData ((k, l) # rest) name d =
     (if k = name then (k, l @ [d]) # rest else (k, l) # pushFixerData rest name d)"

definition addFixerData :: "'f stylelint \<Rightarrow> string \<Rightarrow> 'f \<Rightarrow> 'f stylelint" where
  "addFixerData s name d = s\<lparr>fixersData := pushFixerData (fixersData s) name d\<rparr>"

section \<open>\<open>applyFix\<close> (fix.mjs)\<close>

text \<open>
  \<open>all.map(cb).concat(disabledRanges[ruleName]?.map(cb) || [])\<close>, written in the same
  words in fix.mjs and in \<open>applyFixes\<close>: the tuples under \<open>all\<close> followed by those of the
  rule, read from the range objects as they are now.
\<close>

definition fixRanges ::
    "(nat \<Rightarrow> disabledRange) \<Rightarrow> (string \<times> nat list) list \<Rightarrow> string \<Rightarrow> (int \<times> int option) list" where
  "fixRanges h drs ruleName =
     (let ruleRanges = (case map_of drs ruleName of None \<Rightarrow> [] | Some rs \<Rightarrow> map (cb \<circ> h) rs)
      in map (cb \<circ> h) (allRanges drs) @ ruleRanges)"

text \<open>
  The callback runs before the attempt is recorded. Destructuring an undefined
  \<open>disabledRanges\<close> throws.
\<close>

definition applyFix :: "nat \<Rightarrow> fixerData stylelint \<Rightarrow> string \<Rightarrow> range \<Rightarrow> error + fixerData stylelint" where
  "applyFix callback s ruleName rng =
     (case disabledRanges s of
        None \<Rightarrow> Inl TypeError
      | Some drs \<Rightarrow>
          let ranges = fixRanges (heap s) drs ruleName;
              mayFix = (cfg_ignoreDisables (config s) \<or> ranges = [] \<or>
                        \<not> list_ex (isInRange (line (r_start rng))) ranges);
              s1 = (if mayFix then s\<lparr>calls := calls s @ [callback]\<rparr> else s)
          in Inr (addFixerData s1 ruleName \<lparr>fd_range = rng, fd_fixed = mayFix\<rparr>))"

section \<open>\<open>report\<close> (report.mjs)\<close>

text \<open>
  The local \<open>applyFix\<close> of report.mjs: the ranges are those of the rule when the rule has
  a key, and those under \<open>all\<close> otherwise. The attempt is recorded before the fix runs.
\<close>

definition report_applyFix :: "nat \<Rightarrow> fixerData stylelint \<Rightarrow> string \<Rightarrow> range \<Rightarrow> error + fixerData stylelint" where
  "report_applyFix fixcb s ruleName rng =
     (case disabledRanges s of
        None \<Rightarrow> Inl TypeError
      | Some drs \<Rightarrow>
          let ranges = (case map_of drs ruleName of None \<Rightarrow> allRanges drs | Some rs \<Rightarrow> rs);
              mayFix = (cfg_ignoreDisables (config s) \<or> ranges = [] \<or>
                        \<not> list_ex (\<lambda>a. isInRange (line (r_start rng)) (cb (heap s a))) ranges);
              s1 = addFixerData s ruleName \<lparr>fd_range = rng, fd_fixed = mayFix\<rparr>
          in Inr (if mayFix then s1\<lparr>calls := calls s1 @ [fixcb]\<rparr> else s1))"

text \<open>
  \<open>end?.column && start\<close>, \<open>isNumber(index) && isNumber(endIndex)\<close> and the rest.
  Modelled from the spec: validateTypes.mjs is missing; \<open>isNumber\<close> holds of the indexes
  that are given, which are numbers.
\<close>

definition hasRange :: "problem \<Rightarrow> bool" where
  "hasRange p = (case p_end p of None \<Rightarrow> False | Some e \<Rightarrow> column e \<noteq> 0 \<and> p_start p \<noteq> None)"

definition hasIndexes :: "problem \<Rightarrow> bool" where
  "hasIndexes p = (p_index p \<noteq> None \<and> p_endIndex p \<noteq> None)"

definition hasRangeData :: "problem \<Rightarrow> bool" where
  "hasRangeData p = (hasRange p \<or> hasIndexes p)"

definition hasFix :: "problem \<Rightarrow> bool" where
  "hasFix p = (p_fix p \<noteq> None)"

definition hasFixData :: "config \<Rightarrow> problem \<Rightarrow> bool" where
  "hasFixData cfg p = (cfg_fix cfg \<and> hasRangeData p)"

text \<open>
  \<open>hasRange ? { start, end } : node.rangeBy({ index, endIndex })\<close>; calling \<open>rangeBy\<close> on
  an undefined node throws a \<open>TypeError\<close>.
\<close>

definition fixRange :: "problem \<Rightarrow> error + range" where
  "fixRange p =
     (if hasRange p then
        (case (p_start p, p_end p) of
           (Some st, Some en) \<Rightarrow> Inr \<lparr>r_start = st, r_end = en\<rparr>
         | _ \<Rightarrow> Inl TypeError)
      else (case p_node p of
              None \<Rightarrow> Inl TypeError
            | Some n \<Rightarrow> Inr (rangeBy n (p_index p) (p_endIndex p))))"

text \<open>\<open>severity || result.stylelint.ruleSeverities[ruleName]\<close>; the empty string is falsy.\<close>

definition ruleSeverityOption :: "problem \<Rightarrow> 'f stylelint \<Rightarrow> severityOption option" where
  "ruleSeverityOption p s =
     (case p_severity p of
        Some (SevFn f) \<Rightarrow> Some (SevFn f)
      | Some (SevLit x) \<Rightarrow> if x \<noteq> [] then Some (SevLit x) else map_of (ruleSeverities s) (p_ruleName p)
      | None \<Rightarrow> map_of (ruleSeverities s) (p_ruleName p))"

text \<open>\<open>config.defaultSeverity || 'error'\<close>\<close>

definition defaultSeverity :: "config \<Rightarrow> string" where
  "defaultSeverity cfg =
     (case cfg_defaultSeverity cfg of
        None \<Rightarrow> ''error''
      | Some d \<Rightarrow> if d \<noteq> [] then d else ''error'')"

text \<open>
  The severity of the problem; \<open>None\<close> is \<open>undefined\<close>. A function is called with
  \<open>...(messageArgs || [])\<close>, and a falsy result is replaced by the default severity.
\<close>

definition ruleSeverity :: "problem \<Rightarrow> 'f stylelint \<Rightarrow> string option" where
  "ruleSeverity p s =
     (case ruleSeverityOption p s of
        Some (SevFn f) \<Rightarrow>
          (case f (case p_messageArgs p of None \<Rightarrow> [] | Some a \<Rightarrow> a) of
             None \<Rightarrow> Some (defaultSeverity (config s))
           | Some r \<Rightarrow> if r \<noteq> [] then Some r else Some (defaultSeverity (config s)))
      | Some (SevLit x) \<Rightarrow> Some x
      | None \<Rightarrow> None)"

text \<open>
  \<open>line || reportRange.start?.line\<close> with
  \<open>reportRange = (node && node.rangeBy({ index, endIndex })) || {}\<close>; the line \<open>0\<close> is falsy.
\<close>

definition startLine :: "problem \<Rightarrow> int option" where
  "startLine p =
     (let fromNode = (case p_node p of
                        None \<Rightarrow> None
                      | Some n \<Rightarrow> Some (line (r_start (rangeBy n (p_index p) (p_endIndex p)))))
      in case p_line p of
           None \<Rightarrow> fromNode
         | Some l \<Rightarrow> if l \<noteq> 0 then Some l else fromNode)"

text \<open>\<open>disabledRanges[ruleName] ?? disabledRanges[RULE_NAME_ALL] ?? []\<close>\<close>

definition reportRanges :: "(string \<times> nat list) list \<Rightarrow> string \<Rightarrow> nat list" where
  "reportRanges drs ruleName =
     (case map_of drs ruleName of
        Some rs \<Rightarrow> rs
      | None \<Rightarrow> (case map_of drs RULE_NAME_ALL of Some a \<Rightarrow> a | None \<Rightarrow> []))"

text \<open>
  The condition of the loop over the ranges, in its two parts: the line is within the
  range, and \<open>!range.rules || range.rules.includes(ruleName)\<close>.
\<close>

definition lineInRange :: "disabledRange \<Rightarrow> int \<Rightarrow> bool" where
  "lineInRange r l = (dr_start r \<le> l \<and> (case dr_end r of None \<Rightarrow> True | Some e \<Rightarrow> e \<ge> l))"

definition rulesInclude :: "disabledRange \<Rightarrow> string \<Rightarrow> bool" where
  "rulesInclude r ruleName = (case dr_rules r of None \<Rightarrow> True | Some names \<Rightarrow> ruleName \<in> set names)"

definition rangeMatches :: "disabledRange \<Rightarrow> int \<Rightarrow> string \<Rightarrow> bool" where
  "rangeMatches r l ruleName = (lineInRange r l \<and> rulesInclude r ruleName)"

text \<open>
  The loop \<open>for (const range of ranges)\<close>: at the first range that matches, the warning is
  pushed to \<open>disabledWarnings\<close> and the loop is left, by \<open>return\<close> when \<open>ignoreDisables\<close>
  is falsy and by \<open>break\<close> otherwise. The result is the log and how the loop ended.
\<close>

datatype loopExit = Returned | Broke | Exhausted

fun scanRanges :: "bool \<Rightarrow> string \<Rightarrow> int \<Rightarrow> disabledRange list \<Rightarrow> (string \<times> int) list
    \<Rightarrow> (string \<times> int) list \<times> loopExit" where
  "scanRanges ignoreDisables ruleName l [] dw = (dw, Exhausted)"
| "scanRanges ignoreDisables ruleName l (r # rs) dw =
     (if rangeMatches r l ruleName
      then (dw @ [(ruleName, l)], if \<not> ignoreDisables then Returned else Broke)
      else scanRanges ignoreDisables ruleName l rs dw)"

text \<open>\<open>(customMessages && customMessages[ruleName]) || message\<close>; the empty string is falsy.\<close>

definition chosenMessage :: "problem \<Rightarrow> 'f stylelint \<Rightarrow> message" where
  "chosenMessage p s =
     (case map_of (customMessages s) (p_ruleName p) of
        None \<Rightarrow> p_message p
      | Some (MsgString m) \<Rightarrow> if m \<noteq> [] then MsgString m else p_message p
      | Some (MsgFunction f) \<Rightarrow> MsgFunction f)"

definition warningProps :: "problem \<Rightarrow> string option \<Rightarrow> warningProperties" where
  "warningProps p sev =
     \<lparr>wp_severity = sev,
      wp_rule = p_ruleName p,
      wp_node = p_node p,
      wp_start = p_start p,
      wp_index = (if p_start p = None then p_index p else None),
      wp_end = p_end p,
      wp_endIndex = (if p_end p = None then p_endIndex p else None),
      wp_word = (case p_word p of None \<Rightarrow> None | Some w \<Rightarrow> if w \<noteq> [] then Some w else None)\<rparr>"

text \<open>The end of \<open>report\<close>: the two flags are set and the warning is attached to the result.\<close>

definition emitWarning :: "problem \<Rightarrow> string option \<Rightarrow> 'f stylelint \<Rightarrow> 'f stylelint" where
  "emitWarning p sev s =
     s\<lparr>stylelintError := stylelintError s \<or> sev = Some ''error'',
       stylelintWarning := stylelintWarning s \<or> sev = Some ''warning'',
       messages := messages s @
         [(buildWarningMessage (chosenMessage p s) (p_messageArgs p), warningProps p sev)]\<rparr>"

text \<open>
  \<open>report\<close> from the computation of the severity on: the quiet mode, the start line, the
  disabled ranges, the warning.
\<close>

definition reportWarning :: "problem \<Rightarrow> 'f stylelint \<Rightarrow> error + 'f stylelint" where
  "reportWarning p s =
     (let sev = ruleSeverity p s in
      if quiet s \<and> sev \<noteq> Some ''error'' then Inr s
      else case startLine p of
             None \<Rightarrow> Inl (MissingLine (p_ruleName p))
           | Some l \<Rightarrow>
               if l = 0 then Inl (MissingLine (p_ruleName p))
               else (case disabledRanges s of
                       None \<Rightarrow> Inr (emitWarning p sev s)
                     | Some drs \<Rightarrow>
                         (case scanRanges (cfg_ignoreDisables (config s)) (p_ruleName p) l
                                 (map (heap s) (reportRanges drs (p_ruleName p))) (disabledWarnings s) of
                            (dw, Returned) \<Rightarrow> Inr (s\<lparr>disabledWarnings := dw\<rparr>)
                          | (dw, _) \<Rightarrow> Inr (emitWarning p sev (s\<lparr>disabledWarnings := dw\<rparr>)))))"

text \<open>
  \<open>report\<close>. Both errors are thrown before the result is touched, so an error carries no
  state: the state is the one \<open>report\<close> was called with.
\<close>

definition report :: "problem \<Rightarrow> fixerData stylelint \<Rightarrow> error + fixerData stylelint" where
  "report p s =
     (if hasFix p \<and> \<not> hasRangeData p then Inl (FixRequiresRange (p_ruleName p))
      else if hasFixData (config s) p then
        (case fixRange p of
           Inl e \<Rightarrow> Inl e
         | Inr rng \<Rightarrow>
             (case p_fix p of
                Some fixcb \<Rightarrow> report_applyFix fixcb s (p_ruleName p) rng
              | None \<Rightarrow> reportWarning p s))
      else reportWarning p s)"

section \<open>\<open>applyFixes\<close> and \<open>offsetDisabledRanges\<close>\<close>

text \<open>
  One range object of \<open>offsetDisabledRanges\<close>: the start moves when it is after the end
  line, the end moves when it is truthy and after the end line.
\<close>

definition offsetRange :: "int \<Rightarrow> int \<Rightarrow> disabledRange \<Rightarrow> disabledRange" where
  "offsetRange endLine diff r =
     (let r1 = (if dr_start r > endLine then r\<lparr>dr_start := dr_start r + diff\<rparr> else r)
      in case dr_end r1 of
           None \<Rightarrow> r1
         | Some e \<Rightarrow> if e \<noteq> 0 \<and> e > endLine then r1\<lparr>dr_end := Some (e + diff)\<rparr> else r1)"

text \<open>
  \<open>offsetDisabledRanges\<close> visits the arrays in the order of \<open>Object.values\<close> and updates
  every range object in place; an object that sits in two arrays is visited twice.
\<close>

definition offsetDisabledRanges ::
    "(nat \<Rightarrow> disabledRange) \<Rightarrow> (string \<times> nat list) list \<Rightarrow> int \<Rightarrow> int \<Rightarrow> (nat \<Rightarrow> disabledRange)" where
  "offsetDisabledRanges h drs endLine diff =
     fold (\<lambda>element h1. fold (\<lambda>a h2. h2(a := offsetRange endLine diff (h2 a))) element h1)
          (map snd drs) h"

text \<open>\<open>!unfixable && (config?.ignoreDisables || !ranges.length || !ranges.some(isInRange))\<close>\<close>

definition mayFix :: "config \<Rightarrow> (int \<times> int option) list \<Rightarrow> fixEntry \<Rightarrow> bool" where
  "mayFix cfg ranges e =
     (\<not> fe_unfixable e \<and>
      (cfg_ignoreDisables cfg \<or> ranges = [] \<or>
       \<not> list_ex (isInRange (line (r_start (fe_source e)))) ranges))"

text \<open>The body of the inner \<open>forEach\<close>: one entry of one rule.\<close>

definition applyEntry ::
    "(string \<times> nat list) list \<Rightarrow> (int \<times> int option) list \<Rightarrow> fixEntry \<Rightarrow> fixEntry stylelint
     \<Rightarrow> fixEntry stylelint" where
  "applyEntry drs ranges e s =
     (if mayFix (config s) ranges e then
        (let newSource = fe_callback e (fe_args e);
             diff = line (r_end newSource) - line (r_end (fe_source e));
             s1 = s\<lparr>calls := calls s @ [fe_callback_id e]\<rparr>
         in if \<not> cfg_ignoreDisables (config s) \<and> diff \<noteq> 0
            then s1\<lparr>heap := offsetDisabledRanges (heap s1) drs (line (r_end (fe_source e))) diff\<rparr>
            else s1)
      else s)"

text \<open>
  The body of the outer \<open>forEach\<close>: the tuples of the rule are copied from the range
  objects when the rule starts, and are not updated while its entries run.
\<close>

definition applyRule ::
    "(string \<times> nat list) list \<Rightarrow> string \<times> fixEntry list \<Rightarrow> fixEntry stylelint \<Rightarrow> fixEntry stylelint" where
  "applyRule drs rule s =
     (let ranges = fixRanges (heap s) drs (fst rule)
      in fold (applyEntry drs ranges) (snd rule) s)"

definition applyFixes :: "fixEntry stylelint \<Rightarrow> error + fixEntry stylelint" where
  "applyFixes s =
     (case disabledRanges s of
        None \<Rightarrow> Inl TypeError
      | Some drs \<Rightarrow> Inr (fold (applyRule drs) (fixersData s) s))"

section \<open>Path conditions and specification-side definitions\<close>

text \<open>
  \<open>report\<close> reaches the computation of the severity when it neither throws for a fix
  without range data, nor throws in \<open>rangeBy\<close> on a missing node, nor hands the problem
  to its \<open>applyFix\<close>.
\<close>

definition reachesSeverity :: "config \<Rightarrow> problem \<Rightarrow> bool" where
  "reachesSeverity cfg p =
     ((hasFix p \<longrightarrow> hasRangeData p \<and> \<not> cfg_fix cfg) \<and>
      (hasFixData cfg p \<longrightarrow> hasRange p \<or> p_node p \<noteq> None))"

text \<open>
  A text is \<open>clean\<close> when it holds no placeholder \<open>%d\<close> or \<open>%s\<close> and does not end in
  \<open>%\<close>, so that no placeholder appears when something is written after it.
\<close>

fun clean :: "string \<Rightarrow> bool" where
  "clean [] = True"
| "clean [c] = (c \<noteq> CHR ''%'')"
| "clean (c # d # t) = (\<not> (c = CHR ''%'' \<and> (d = CHR ''d'' \<or> d = CHR ''s'')) \<and> clean (d # t))"

text \<open>
  A format string seen as the specification sees it: a leading text, then placeholders
  (the letter \<open>d\<close> or \<open>s\<close>) each followed by a text.
\<close>

fun render :: "string \<Rightarrow> (char \<times> string) list \<Rightarrow> string" where
  "render s0 [] = s0"
| "render s0 ((c, s) # ps) = s0 @ CHR ''%'' # c # render s ps"

text \<open>
  The formatting of the specification: the placeholders are consumed from left to right,
  one per argument; placeholders beyond the arguments stay as they are, arguments beyond
  the placeholders are dropped.
\<close>

fun spec_format :: "string \<Rightarrow> (char \<times> string) list \<Rightarrow> string list \<Rightarrow> string" where
  "spec_format s0 [] args = s0"
| "spec_format s0 ((c, s) # ps) [] = s0 @ CHR ''%'' # c # spec_format s ps []"
| "spec_format s0 ((c, s) # ps) (a # as) = s0 @ a @ spec_format s ps as"

text \<open>
  The severity of the specification: the severity of the problem if given, else the one
  of the rule in \<open>ruleSeverities\<close>, else the default severity; a function is called with
  the message arguments and a falsy result is replaced by the default severity.
\<close>

definition severityGiven :: "problem \<Rightarrow> bool" where
  "severityGiven p =
     (case p_severity p of None \<Rightarrow> False | Some (SevLit x) \<Rightarrow> x \<noteq> [] | Some (SevFn f) \<Rightarrow> True)"

fun spec_resolve :: "config \<Rightarrow> jsval list option \<Rightarrow> severityOption \<Rightarrow> string" where
  "spec_resolve cfg margs (SevLit x) = x"
| "spec_resolve cfg margs (SevFn f) =
     (case f (case margs of None \<Rightarrow> [] | Some a \<Rightarrow> a) of
        None \<Rightarrow> defaultSeverity cfg
      | Some r \<Rightarrow> if r \<noteq> [] then r else defaultSeverity cfg)"

definition spec_severity :: "problem \<Rightarrow> 'f stylelint \<Rightarrow> string" where
  "spec_severity p s =
     (case (if severityGiven p then p_severity p else None) of
        Some opt \<Rightarrow> spec_resolve (config s) (p_messageArgs p) opt
      | None \<Rightarrow>
          (case map_of (ruleSeverities s) (p_ruleName p) of
             Some opt \<Rightarrow> spec_resolve (config s) (p_messageArgs p) opt
           | None \<Rightarrow> defaultSeverity (config s)))"

section \<open>Example inputs\<close>

definition ex_config :: config where
  "ex_config = \<lparr>cfg_fix = False, cfg_defaultSeverity = Some ''warning'', cfg_ignoreDisables = False\<rparr>"

text \<open>Five range objects, at the addresses 0 to 4.\<close>

definition ex_heap :: "nat \<Rightarrow> disabledRange" where
  "ex_heap a =
     (if a = 0 then \<lparr>dr_start = 1, dr_end = Some 5, dr_rules = None\<rparr>
      else if a = 1 then \<lparr>dr_start = 2, dr_end = None, dr_rules = None\<rparr>
      else if a = 2 then \<lparr>dr_start = 1, dr_end = Some 5, dr_rules = Some [''bar'']\<rparr>
      else if a = 3 then \<lparr>dr_start = 5, dr_end = Some 15, dr_rules = None\<rparr>
      else \<lparr>dr_start = 20, dr_end = Some 30, dr_rules = None\<rparr>)"

text \<open>A result whose only disabled range covers the lines 1 to 5 for all rules.\<close>

definition ex_result :: "'f stylelint" where
  "ex_result =
     \<lparr>config = ex_config, ruleSeverities = [(''foo'', SevLit ''error'')], quiet = False,
      heap = ex_heap, disabledRanges = Some [(''all'', [0])], disabledWarnings = [],
      stylelintError = False, stylelintWarning = False, customMessages = [],
      fixersData = [], messages = [], calls = []\<rparr>"

text \<open>A problem of the rule \<open>foo\<close> on line 3, without fix.\<close>

definition ex_problem :: problem where
  "ex_problem =
     \<lparr>p_index = None, p_endIndex = None, p_start = None, p_end = None, p_fix = None,
      p_line = Some 3, p_message = MsgString ''Unexpected %s'', p_messageArgs = Some [JStr ''x''],
      p_node = None, p_ruleName = ''foo'', p_severity = None, p_word = None\<rparr>"

text \<open>A fix on the lines \<open>l1\<close> to \<open>l2\<close> whose callback leaves the end on line \<open>l3\<close>.\<close>

definition ex_entry :: "int \<Rightarrow> int \<Rightarrow> int \<Rightarrow> fixEntry" where
  "ex_entry l1 l2 l3 =
     \<lparr>fe_source = \<lparr>r_start = \<lparr>line = l1, column = 1\<rparr>, r_end = \<lparr>line = l2, column = 1\<rparr>\<rparr>,
      fe_callback_id = 7,
      fe_callback = (\<lambda>_. \<lparr>r_start = \<lparr>line = l1, column = 1\<rparr>, r_end = \<lparr>line = l3, column = 1\<rparr>\<rparr>),
      fe_args = JUndefined,
      fe_unfixable = False\<rparr>"

text \<open>The range of a fix on line \<open>l\<close>.\<close>

definition ex_range :: "int \<Rightarrow> range" where
  "ex_range l = \<lparr>r_start = \<lparr>line = l, column = 1\<rparr>, r_end = \<lparr>line = l, column = 9\<rparr>\<rparr>"

section \<open>Lemmas on \<open>printfLike\<close>\<close>

lemma clean_append: "clean a \<Longrightarrow> clean b \<Longrightarrow> clean (a @ b)"
proof (induction a rule: clean.induct)
  case 1 then show ?case by simp
next
  case (2 c) then show ?case by (cases b) auto
next
  case (3 c d t) then show ?case by auto
qed

lemma replaceFirst_clean: "clean b \<Longrightarrow> replaceFirst acc b r = acc @ b"
  by (induction acc b r rule: replaceFirst.induct) auto

lemma replaceFirst_placeholder:
  "clean b \<Longrightarrow> c = CHR ''d'' \<or> c = CHR ''s'' \<Longrightarrow>
   replaceFirst acc (b @ CHR ''%'' # c # t) r =
     acc @ b @ getSubstitution [CHR ''%'', c] (acc @ b) t r @ t"
  by (induction b arbitrary: acc rule: clean.induct) auto

lemma getSubstitution_plain: "CHR ''$'' \<notin> set r \<Longrightarrow> getSubstitution m b a r = r"
  by (induction m b a r rule: getSubstitution.induct) auto

lemma js_replace_clean: "clean b \<Longrightarrow> js_replace b r = b"
  by (simp add: js_replace_def replaceFirst_clean)

lemma js_replace_placeholder:
  "clean b \<Longrightarrow> c = CHR ''d'' \<or> c = CHR ''s'' \<Longrightarrow> CHR ''$'' \<notin> set r \<Longrightarrow>
   js_replace (b @ CHR ''%'' # c # t) r = b @ r @ t"
  by (simp add: js_replace_def replaceFirst_placeholder getSubstitution_plain)

lemma printfLike_Cons: "printfLike f (a # as) = printfLike (js_replace f (js_String a)) as"
  by (simp add: printfLike_def)

lemma printfLike_clean: "clean b \<Longrightarrow> printfLike b args = b"
  by (induction args) (simp_all add: printfLike_def js_replace_clean)

lemma render_append: "render (x @ s) ps = x @ render s ps"
  by (cases ps) auto

lemma spec_format_append: "spec_format (x @ s) ps as = x @ spec_format s ps as"
  by (cases "(s, ps, as)" rule: spec_format.cases) auto

lemma spec_format_Nil: "spec_format s ps [] = render s ps"
  by (induction s ps rule: render.induct) auto

lemma printfLike_spec_format:
  "clean s0 \<Longrightarrow> \<forall>q \<in> set ps. (fst q = CHR ''d'' \<or> fst q = CHR ''s'') \<and> clean (snd q) \<Longrightarrow>
   \<forall>a \<in> set args. clean (js_String a) \<and> CHR ''$'' \<notin> set (js_String a) \<Longrightarrow>
   printfLike (render s0 ps) args = spec_format s0 ps (map js_String args)"
proof (induction ps arbitrary: s0 args)
  case Nil
  then show ?case by (simp add: printfLike_clean)
next
  case (Cons q ps)
  obtain c s where q: "q = (c, s)" by (cases q)
  show ?case
  proof (cases args)
    case Nil
    then show ?thesis by (simp add: q printfLike_def spec_format_Nil)
  next
    case (Cons a as)
    have c: "c = CHR ''d'' \<or> c = CHR ''s''" and s: "clean s"
      using Cons.prems(2) q by auto
    have a: "clean (js_String a)" "CHR ''$'' \<notin> set (js_String a)"
      using Cons.prems(3) Cons by auto
    have "js_replace (render s0 (q # ps)) (js_String a) = s0 @ js_String a @ render s ps"
      using js_replace_placeholder[OF Cons.prems(1) c a(2)] by (simp add: q)
    also have "\<dots> = render (s0 @ js_String a @ s) ps"
      using render_append[of "s0 @ js_String a" s ps] by simp
    finally have step:
      "js_replace (render s0 (q # ps)) (js_String a) = render (s0 @ js_String a @ s) ps" .
    have cl: "clean (s0 @ js_String a @ s)"
      by (intro clean_append Cons.prems(1) a(1) s)
    have ih: "printfLike (render (s0 @ js_String a @ s) ps) as =
          spec_format (s0 @ js_String a @ s) ps (map js_String as)"
      using Cons.IH[OF cl] Cons.prems(2,3) Cons by auto
    have "printfLike (render s0 (q # ps)) args =
          printfLike (js_replace (render s0 (q # ps)) (js_String a)) as"
      unfolding Cons by (rule printfLike_Cons)
    also have "\<dots> = spec_format (s0 @ js_String a @ s) ps (map js_String as)"
      unfolding step by (rule ih)
    also have "\<dots> = s0 @ js_String a @ spec_format s ps (map js_String as)"
      using spec_format_append[of "s0 @ js_String a" s ps "map js_String as"] by simp
    also have "\<dots> = spec_format s0 (q # ps) (map js_String args)"
      by (simp add: Cons q)
    finally show ?thesis .
  qed
qed

section \<open>Lemmas on \<open>report\<close> and \<open>applyFixes\<close>\<close>

lemma report_reaches: "reachesSeverity (config s) p \<Longrightarrow> report p s = reportWarning p s"
  by (auto simp: report_def reachesSeverity_def hasFix_def fixRange_def hasRange_def hasFixData_def
      split: option.splits)

lemma report_not_reaches:
  "\<not> reachesSeverity (config s) p \<Longrightarrow>
     report p s = Inl (FixRequiresRange (p_ruleName p)) \<or> report p s = Inl TypeError \<or>
     (\<exists>fixcb rng. p_fix p = Some fixcb \<and> fixRange p = Inr rng \<and>
        report p s = report_applyFix fixcb s (p_ruleName p) rng)"
  by (auto simp: report_def reachesSeverity_def hasFix_def fixRange_def hasRange_def hasFixData_def
      split: option.splits)

lemma scanRanges_result:
  "scanRanges ig rn l rs dw =
     (if \<exists>r \<in> set rs. rangeMatches r l rn
      then (dw @ [(rn, l)], if ig then Broke else Returned)
      else (dw, Exhausted))"
  by (induction rs) auto

lemma reportWarning_scan:
  assumes "\<not> (quiet s \<and> ruleSeverity p s \<noteq> Some ''error'')"
    and "startLine p = Some l" and "l \<noteq> 0" and "disabledRanges s = Some drs"
  shows "reportWarning p s =
     (if \<exists>a \<in> set (reportRanges drs (p_ruleName p)). rangeMatches (heap s a) l (p_ruleName p)
      then (if cfg_ignoreDisables (config s)
            then Inr (emitWarning p (ruleSeverity p s)
                        (s\<lparr>disabledWarnings := disabledWarnings s @ [(p_ruleName p, l)]\<rparr>))
            else Inr (s\<lparr>disabledWarnings := disabledWarnings s @ [(p_ruleName p, l)]\<rparr>))
      else Inr (emitWarning p (ruleSeverity p s) s))"
  using assms by (auto simp: reportWarning_def scanRanges_result Let_def)





lemma applyEntry_skip: "\<not> mayFix (config s) ranges e \<Longrightarrow> applyEntry drs ranges e s = s"
  by (simp add: applyEntry_def)

lemma fold_applyEntry_skip:
  "\<forall>e \<in> set es. \<not> mayFix (config s) ranges e \<Longrightarrow> fold (applyEntry drs ranges) es s = s"
  by (induction es) (simp_all add: applyEntry_skip)

lemma fold_applyRule_skip:
  "\<forall>rule \<in> set rules. \<forall>e \<in> set (snd rule). \<not> mayFix (config s) (fixRanges (heap s) drs (fst rule)) e \<Longrightarrow>
   fold (applyRule drs) rules s = s"
  by (induction rules) (simp_all add: applyRule_def fold_applyEntry_skip)

lemma map_of_pushFixerData:
  "map_of (pushFixerData fd name d) name =
     Some ((case map_of fd name of None \<Rightarrow> [] | Some l \<Rightarrow> l) @ [d])"
  by (induction fd name d rule: pushFixerData.induct) auto

lemma map_of_pushFixerData_other:
  "k \<noteq> name \<Longrightarrow> map_of (pushFixerData fd name d) k = map_of fd k"
  by (induction fd name d rule: pushFixerData.induct) auto

lemma report_scan:
  assumes "reachesSeverity (config s) p"
    and "\<not> (quiet s \<and> ruleSeverity p s \<noteq> Some ''error'')"
    and "startLine p = Some l" and "l \<noteq> 0" and "disabledRanges s = Some drs"
  shows "report p s =
     (if \<exists>a \<in> set (reportRanges drs (p_ruleName p)). rangeMatches (heap s a) l (p_ruleName p)
      then (if cfg_ignoreDisables (config s)
            then Inr (emitWarning p (ruleSeverity p s)
                        (s\<lparr>disabledWarnings := disabledWarnings s @ [(p_ruleName p, l)]\<rparr>))
            else Inr (s\<lparr>disabledWarnings := disabledWarnings s @ [(p_ruleName p, l)]\<rparr>))
      else Inr (emitWarning p (ruleSeverity p s) s))"
  using assms(1) reportWarning_scan[OF assms(2-5)] by (simp add: report_reaches)

lemma emitWarning_fields:
  "disabledWarnings (emitWarning p sev s) = disabledWarnings s"
  "messages (emitWarning p sev s) =
     messages s @ [(buildWarningMessage (chosenMessage p s) (p_messageArgs p), warningProps p sev)]"
  "heap (emitWarning p sev s) = heap s"
  "calls (emitWarning p sev s) = calls s"
  by (simp_all add: emitWarning_def)

lemma chosenMessage_disabledWarnings [simp]:
  "chosenMessage p (s\<lparr>disabledWarnings := dw\<rparr>) = chosenMessage p s"
  by (simp add: chosenMessage_def)

lemma report_applyFix_keeps:
  "report_applyFix fixcb s rn rng = Inr s' \<Longrightarrow>
     messages s' = messages s \<and> disabledWarnings s' = disabledWarnings s \<and>
     stylelintError s' = stylelintError s \<and> stylelintWarning s' = stylelintWarning s \<and>
     heap s' = heap s \<and> disabledRanges s' = disabledRanges s"
  by (auto simp: report_applyFix_def addFixerData_def Let_def split: option.splits if_splits)

lemma reportWarning_quiet:
  "quiet s \<Longrightarrow> ruleSeverity p s \<noteq> Some ''error'' \<Longrightarrow> reportWarning p s = Inr s"
  by (simp add: reportWarning_def)


lemma list_ex_fixRanges:
  "list_ex (isInRange l) (fixRanges h drs rn) =
     (\<exists>a \<in> set (allRanges drs) \<union> set (case map_of drs rn of None \<Rightarrow> [] | Some own \<Rightarrow> own).
        isInRange l (cb (h a)))"
  by (auto simp: fixRanges_def list_ex_iff split: option.splits)

lemma fixRanges_Nil:
  "fixRanges h drs rn = [] \<Longrightarrow>
     \<not> (\<exists>a \<in> set (allRanges drs) \<union> set (case map_of drs rn of None \<Rightarrow> [] | Some own \<Rightarrow> own).
        isInRange l (cb (h a)))"
  by (auto simp: fixRanges_def split: option.splits)

lemma mayFix_fixRanges:
  "mayFix cfg (fixRanges h drs rn) e =
     (\<not> fe_unfixable e \<and>
      (cfg_ignoreDisables cfg \<or>
       \<not> (\<exists>a \<in> set (allRanges drs) \<union> set (case map_of drs rn of None \<Rightarrow> [] | Some own \<Rightarrow> own).
            isInRange (line (r_start (fe_source e))) (cb (h a)))))"
  unfolding mayFix_def using fixRanges_Nil[of h drs rn] list_ex_fixRanges[of _ h drs rn]
  by blast

lemma applyEntry_calls:
  "calls (applyEntry drs ranges e s) =
     (if mayFix (config s) ranges e then calls s @ [fe_callback_id e] else calls s)"
  by (simp add: applyEntry_def Let_def)

lemma addFixerData_fields:
  "map_of (fixersData (addFixerData s rn d)) rn =
     Some ((case map_of (fixersData s) rn of None \<Rightarrow> [] | Some l \<Rightarrow> l) @ [d])"
  "calls (addFixerData s rn d) = calls s"
  "messages (addFixerData s rn d) = messages s"
  "disabledWarnings (addFixerData s rn d) = disabledWarnings s"
  by (simp_all add: addFixerData_def map_of_pushFixerData)

lemma list_ex_cb_heap:
  "list_ex (\<lambda>a. isInRange l (cb (h a))) as = (\<exists>a \<in> set as. isInRange l (cb (h a)))"
  by (simp add: list_ex_iff)

lemma reportWarning_messages:
  "reportWarning p s = Inr s' \<Longrightarrow>
     messages s' = messages s \<or>
     messages s' = messages s @
       [(buildWarningMessage (chosenMessage p s) (p_messageArgs p), warningProps p (ruleSeverity p s))]"
  by (auto simp: reportWarning_def scanRanges_result Let_def emitWarning_fields
      split: if_splits option.splits)

lemma report_messages:
  "report p s = Inr s' \<Longrightarrow>
     messages s' = messages s \<or>
     messages s' = messages s @
       [(buildWarningMessage (chosenMessage p s) (p_messageArgs p), warningProps p (ruleSeverity p s))]"
proof (cases "reachesSeverity (config s) p")
  case True
  assume "report p s = Inr s'"
  then show ?thesis using True by (simp add: report_reaches reportWarning_messages)
next
  case False
  assume r: "report p s = Inr s'"
  from report_not_reaches[OF False]
  consider "report p s = Inl (FixRequiresRange (p_ruleName p))" | "report p s = Inl TypeError"
    | fixcb rng where "report p s = report_applyFix fixcb s (p_ruleName p) rng"
    by blast
  then show ?thesis
  proof cases
    case 1 with r show ?thesis by simp
  next
    case 2 with r show ?thesis by simp
  next
    case 3
    with r have "report_applyFix fixcb s (p_ruleName p) rng = Inr s'" by simp
    then show ?thesis using report_applyFix_keeps by blast
  qed
qed

lemma ruleSeverity_given_or_listed:
  "severityGiven p \<or> map_of (ruleSeverities s) (p_ruleName p) \<noteq> None \<Longrightarrow>
   ruleSeverity p s = Some (spec_severity p s)"
  by (auto simp: ruleSeverity_def ruleSeverityOption_def spec_severity_def severityGiven_def
      split: option.splits severityOption.splits)

lemma ruleSeverity_undefined:
  "\<not> severityGiven p \<Longrightarrow> map_of (ruleSeverities s) (p_ruleName p) = None \<Longrightarrow>
   ruleSeverity p s = None"
  by (auto simp: ruleSeverity_def ruleSeverityOption_def severityGiven_def
      split: option.splits severityOption.splits)

text \<open>
  What the reporting path consults: for a problem that reaches the scan, an entry is
  pushed to \<open>disabledWarnings\<close> exactly when a range of the list under the key of the
  rule, or of the list under \<open>all\<close> when the rule has no key, covers the line and has
  \<open>rules\<close> undefined or holding the rule.
\<close>

lemma report_consulted_ranges:
  assumes "reachesSeverity (config s) p"
    and "\<not> (quiet s \<and> ruleSeverity p s \<noteq> Some ''error'')"
    and "startLine p = Some l" and "l \<noteq> 0" and "disabledRanges s = Some drs"
    and "report p s = Inr s'"
  shows "((disabledWarnings s' = disabledWarnings s @ [(p_ruleName p, l)]) =
            (\<exists>a \<in> set (case map_of drs (p_ruleName p) of Some own \<Rightarrow> own | None \<Rightarrow> allRanges drs).
               lineInRange (heap s a) l \<and> rulesInclude (heap s a) (p_ruleName p))) \<and>
         (\<not> cfg_ignoreDisables (config s) \<longrightarrow>
            (messages s' = messages s) =
            (\<exists>a \<in> set (case map_of drs (p_ruleName p) of Some own \<Rightarrow> own | None \<Rightarrow> allRanges drs).
               lineInRange (heap s a) l \<and> rulesInclude (heap s a) (p_ruleName p)))"
proof -
  have rr: "reportRanges drs (p_ruleName p) =
        (case map_of drs (p_ruleName p) of Some own \<Rightarrow> own | None \<Rightarrow> allRanges drs)"
    by (simp add: reportRanges_def allRanges_def split: option.splits)
  let ?M = "\<exists>a \<in> set (reportRanges drs (p_ruleName p)).
               lineInRange (heap s a) l \<and> rulesInclude (heap s a) (p_ruleName p)"
  have reportpath:
    "(disabledWarnings s' = disabledWarnings s @ [(p_ruleName p, l)]) = ?M \<and>
     (\<not> cfg_ignoreDisables (config s) \<longrightarrow> (messages s' = messages s) = ?M)"
  proof (cases ?M)
    case True
    then have "s' = (if cfg_ignoreDisables (config s)
            then emitWarning p (ruleSeverity p s)
                        (s\<lparr>disabledWarnings := disabledWarnings s @ [(p_ruleName p, l)]\<rparr>)
            else s\<lparr>disabledWarnings := disabledWarnings s @ [(p_ruleName p, l)]\<rparr>)"
      using report_scan[OF assms(1-5)] assms(6) by (auto simp: rangeMatches_def split: if_splits)
    then show ?thesis using True by (simp add: emitWarning_fields)
  next
    case False
    then have "s' = emitWarning p (ruleSeverity p s) s"
      using report_scan[OF assms(1-5)] assms(6) by (auto simp: rangeMatches_def split: if_splits)
    then show ?thesis using False by (simp add: emitWarning_fields)
  qed
  show ?thesis
    using reportpath unfolding rr by blast
qed

text \<open>
  What the fix-application path consults: the callbacks that a rule of \<open>applyFixes\<close>
  calls are, in order, those of its fixable entries whose start line lies in no range
  under \<open>all\<close> and in no range under the key of the rule (all of them under
  \<open>ignoreDisables\<close>), the ranges being read when the rule starts.
\<close>

lemma applyEntry_config: "config (applyEntry drs ranges e s) = config s"
  by (simp add: applyEntry_def Let_def)

lemma fold_applyEntry_calls:
  "calls (fold (applyEntry drs ranges) es s) =
     calls s @ map fe_callback_id (filter (mayFix (config s) ranges) es)"
  by (induction es arbitrary: s) (simp_all add: applyEntry_calls applyEntry_config)

lemma applyRule_calls:
  "calls (applyRule drs (ruleName, es) s) =
     calls s @ map fe_callback_id
       (filter (\<lambda>e. \<not> fe_unfixable e \<and>
                  (cfg_ignoreDisables (config s) \<or>
                   \<not> (\<exists>a \<in> set (allRanges drs) \<union>
                             set (case map_of drs ruleName of None \<Rightarrow> [] | Some own \<Rightarrow> own).
                         isInRange (line (r_start (fe_source e))) (cb (heap s a))))) es)"
proof -
  have "mayFix (config s) (fixRanges (heap s) drs ruleName) =
      (\<lambda>e. \<not> fe_unfixable e \<and>
                  (cfg_ignoreDisables (config s) \<or>
                   \<not> (\<exists>a \<in> set (allRanges drs) \<union>
                             set (case map_of drs ruleName of None \<Rightarrow> [] | Some own \<Rightarrow> own).
                         isInRange (line (r_start (fe_source e))) (cb (heap s a)))))"
    by (rule ext) (rule mayFix_fixRanges)
  then show ?thesis
    by (simp only: applyRule_def Let_def fst_conv snd_conv fold_applyEntry_calls)
qed

text \<open>
  The two \<open>applyFix\<close>: the one of fix.mjs holds a fix back when its start line lies in a
  range under \<open>all\<close> or under the key of its rule, the one of report.mjs when it lies in
  a range under the key of its rule, or under \<open>all\<close> when the rule has no key. A fix held
  back is recorded with \<open>fixed: false\<close> and not called; any other is called and recorded
  with \<open>fixed: true\<close>.
\<close>

lemma applyFix_outcomes:
  assumes "disabledRanges s = Some drs"
  shows "applyFix callback s ruleName rng =
           (if cfg_ignoreDisables (config s) \<or>
               \<not> (\<exists>a \<in> set (allRanges drs) \<union>
                         set (case map_of drs ruleName of None \<Rightarrow> [] | Some own \<Rightarrow> own).
                     isInRange (line (r_start rng)) (cb (heap s a)))
            then Inr (addFixerData (s\<lparr>calls := calls s @ [callback]\<rparr>) ruleName
                        \<lparr>fd_range = rng, fd_fixed = True\<rparr>)
            else Inr (addFixerData s ruleName \<lparr>fd_range = rng, fd_fixed = False\<rparr>)) \<and>
         report_applyFix callback s ruleName rng =
           (if cfg_ignoreDisables (config s) \<or>
               \<not> (\<exists>a \<in> set (case map_of drs ruleName of None \<Rightarrow> allRanges drs | Some own \<Rightarrow> own).
                     isInRange (line (r_start rng)) (cb (heap s a)))
            then Inr ((addFixerData s ruleName \<lparr>fd_range = rng, fd_fixed = True\<rparr>)
                        \<lparr>calls := calls s @ [callback]\<rparr>)
            else Inr (addFixerData s ruleName \<lparr>fd_range = rng, fd_fixed = False\<rparr>)) \<and>
         map_of (fixersData (addFixerData s ruleName d)) ruleName =
           Some ((case map_of (fixersData s) ruleName of None \<Rightarrow> [] | Some l \<Rightarrow> l) @ [d]) \<and>
         calls (addFixerData s ruleName d) = calls s"
proof -
  let ?U = "\<exists>a \<in> set (allRanges drs) \<union>
                     set (case map_of drs ruleName of None \<Rightarrow> [] | Some own \<Rightarrow> own).
                 isInRange (line (r_start rng)) (cb (heap s a))"
  let ?ranges = "fixRanges (heap s) drs ruleName"
  have m: "(cfg_ignoreDisables (config s) \<or> ?ranges = [] \<or>
            \<not> list_ex (isInRange (line (r_start rng))) ?ranges) =
           (cfg_ignoreDisables (config s) \<or> \<not> ?U)"
    using fixRanges_Nil[of "heap s" drs ruleName "line (r_start rng)"]
      list_ex_fixRanges[of "line (r_start rng)" "heap s" drs ruleName]
    by blast
  have a: "applyFix callback s ruleName rng =
           (if cfg_ignoreDisables (config s) \<or> \<not> ?U
            then Inr (addFixerData (s\<lparr>calls := calls s @ [callback]\<rparr>) ruleName
                        \<lparr>fd_range = rng, fd_fixed = True\<rparr>)
            else Inr (addFixerData s ruleName \<lparr>fd_range = rng, fd_fixed = False\<rparr>))"
  proof -
    have "applyFix callback s ruleName rng =
           (if cfg_ignoreDisables (config s) \<or> ?ranges = [] \<or>
               \<not> list_ex (isInRange (line (r_start rng))) ?ranges
            then Inr (addFixerData (s\<lparr>calls := calls s @ [callback]\<rparr>) ruleName
                        \<lparr>fd_range = rng, fd_fixed = True\<rparr>)
            else Inr (addFixerData s ruleName \<lparr>fd_range = rng, fd_fixed = False\<rparr>))"
      using assms by (simp add: applyFix_def Let_def)
    then show ?thesis by (simp only: m)
  qed
  let ?own = "case map_of drs ruleName of None \<Rightarrow> allRanges drs | Some own \<Rightarrow> own"
  have n: "(cfg_ignoreDisables (config s) \<or> ?own = [] \<or>
            \<not> list_ex (\<lambda>a. isInRange (line (r_start rng)) (cb (heap s a))) ?own) =
           (cfg_ignoreDisables (config s) \<or>
            \<not> (\<exists>a \<in> set ?own. isInRange (line (r_start rng)) (cb (heap s a))))"
    unfolding list_ex_cb_heap by auto
  have b: "report_applyFix callback s ruleName rng =
           (if cfg_ignoreDisables (config s) \<or>
               \<not> (\<exists>a \<in> set ?own. isInRange (line (r_start rng)) (cb (heap s a)))
            then Inr ((addFixerData s ruleName \<lparr>fd_range = rng, fd_fixed = True\<rparr>)
                        \<lparr>calls := calls s @ [callback]\<rparr>)
            else Inr (addFixerData s ruleName \<lparr>fd_range = rng, fd_fixed = False\<rparr>))"
  proof -
    have "report_applyFix callback s ruleName rng =
           (if cfg_ignoreDisables (config s) \<or> ?own = [] \<or>
               \<not> list_ex (\<lambda>a. isInRange (line (r_start rng)) (cb (heap s a))) ?own
            then Inr ((addFixerData s ruleName \<lparr>fd_range = rng, fd_fixed = True\<rparr>)
                        \<lparr>calls := calls s @ [callback]\<rparr>)
            else Inr (addFixerData s ruleName \<lparr>fd_range = rng, fd_fixed = False\<rparr>))"
      using assms by (simp add: report_applyFix_def Let_def addFixerData_fields)
    then show ?thesis by (simp only: n)
  qed
  show ?thesis
    using a b by (simp only: addFixerData_fields simp_thms)
qed

section \<open>The ranges consulted on each path\<close>

text \<open>
  C1. The ranges consulted for a rule are to be those under the key of the rule together
  with those under \<open>all\<close>, on the reporting path as on the fix-application path, so that
  a line covered under either key suppresses. \<open>applyFixes\<close> does so; \<open>report\<close> does not: it
  reads the list under \<open>all\<close> only when the rule has no key. With the range of the lines
  1 to 5 under \<open>all\<close> and the range of the lines 20 to 30 under \<open>foo\<close>, line 3 is covered
  by the range under \<open>all\<close>, which names no rule; yet the problem of \<open>foo\<close> on line 3 is
  attached as a warning and nothing is pushed to \<open>disabledWarnings\<close>, while the fix of
  \<open>foo\<close> on line 3 is held back by \<open>applyFixes\<close> on the same ranges.
\<close>

theorem report_skips_wildcard_range_of_keyed_rule:
  "map_of [(''all'', [0::nat]), (''foo'', [4])] RULE_NAME_ALL = Some [0] \<and>
   lineInRange (ex_heap 0) 3 \<and> rulesInclude (ex_heap 0) ''foo'' \<and>
   map_sum id disabledWarnings
     (report ex_problem (ex_result\<lparr>disabledRanges := Some [(''all'', [0]), (''foo'', [4])]\<rparr>)) = Inr [] \<and>
   map_sum id (map fst \<circ> messages)
     (report ex_problem (ex_result\<lparr>disabledRanges := Some [(''all'', [0]), (''foo'', [4])]\<rparr>)) =
     Inr [''Unexpected x''] \<and>
   map_sum id calls
     (applyFixes (ex_result\<lparr>disabledRanges := Some [(''all'', [0]), (''foo'', [4])],
                            fixersData := [(''foo'', [ex_entry 3 3 4])]\<rparr>)) = Inr []"
  by (simp add: ex_result_def ex_problem_def ex_config_def ex_heap_def ex_entry_def ruleSeverity_def
      ruleSeverityOption_def hasFix_def hasFixData_def lineInRange_def
      rulesInclude_def RULE_NAME_ALL_def allRanges_def cb_def fixRanges_def mayFix_def
      applyFixes_def applyRule_def applyEntry_def emitWarning_def chosenMessage_def
      buildWarningMessage_def printfLike_def js_replace_def
      startLine_def report_def reportWarning_def reportRanges_def rangeMatches_def)

section \<open>The loop over the disabled ranges\<close>

text \<open>
  C2, as the code has it. When some consulted range matches the line and the rule, the
  loop pushes one entry to \<open>disabledWarnings\<close>, for the first range that matches, and is
  left, whatever the number of ranges that match. With \<open>ignoreDisables\<close> the loop is left
  by \<open>break\<close> and the warning is attached; without it \<open>report\<close> returns, and the entry is
  the only change of the result.
\<close>

theorem first_matching_range_logged_once:
  assumes "reachesSeverity (config s) p"
    and "\<not> (quiet s \<and> ruleSeverity p s \<noteq> Some ''error'')"
    and "startLine p = Some l" and "l \<noteq> 0" and "disabledRanges s = Some drs"
    and "\<exists>a \<in> set (reportRanges drs (p_ruleName p)). rangeMatches (heap s a) l (p_ruleName p)"
  shows "(cfg_ignoreDisables (config s) \<longrightarrow>
            (\<exists>s'. report p s = Inr s' \<and>
               disabledWarnings s' = disabledWarnings s @ [(p_ruleName p, l)] \<and>
               messages s' = messages s @
                 [(buildWarningMessage (chosenMessage p s) (p_messageArgs p),
                   warningProps p (ruleSeverity p s))])) \<and>
         (\<not> cfg_ignoreDisables (config s) \<longrightarrow>
            report p s = Inr (s\<lparr>disabledWarnings := disabledWarnings s @ [(p_ruleName p, l)]\<rparr>))"
  using report_scan[OF assms(1-5)] assms(6) by (simp add: emitWarning_fields)

text \<open>
  Two ranges under \<open>all\<close> cover line 3: one entry is logged and nothing is reported;
  with \<open>ignoreDisables\<close>, one entry is logged and the warning is attached.
\<close>

theorem first_matching_range_logged_once_witness:
  "rangeMatches (ex_heap 0) 3 ''foo'' \<and> rangeMatches (ex_heap 1) 3 ''foo'' \<and>
   report ex_problem (ex_result\<lparr>disabledRanges := Some [(''all'', [0, 1])]\<rparr>) =
     Inr (ex_result\<lparr>disabledRanges := Some [(''all'', [0, 1])], disabledWarnings := [(''foo'', 3)]\<rparr>) \<and>
   (\<exists>s'. report ex_problem
            (ex_result\<lparr>disabledRanges := Some [(''all'', [0, 1])],
                       config := ex_config\<lparr>cfg_ignoreDisables := True\<rparr>\<rparr>) = Inr s' \<and>
         disabledWarnings s' = [(''foo'', 3)] \<and> map fst (messages s') = [''Unexpected x''])"
  using first_matching_range_logged_once
      [of "ex_result\<lparr>disabledRanges := Some [(''all'', [0, 1])]\<rparr>" ex_problem 3 "[(''all'', [0, 1])]"]
    first_matching_range_logged_once
      [of "ex_result\<lparr>disabledRanges := Some [(''all'', [0, 1])],
                      config := ex_config\<lparr>cfg_ignoreDisables := True\<rparr>\<rparr>"
          ex_problem 3 "[(''all'', [0, 1])]"]
  by (auto simp: ex_result_def ex_problem_def ex_config_def ex_heap_def ruleSeverity_def
      ruleSeverityOption_def reachesSeverity_def hasFix_def hasFixData_def lineInRange_def
      rangeMatches_def rulesInclude_def RULE_NAME_ALL_def
      startLine_def reportRanges_def chosenMessage_def buildWarningMessage_def printfLike_def
      js_replace_def)

text \<open>
  The claim as stated fails under \<open>ignoreDisables\<close>: both ranges under \<open>all\<close> match the
  problem on line 3, and one entry is logged, not two.
\<close>

theorem ignoreDisables_logs_first_match_only_counterexample:
  "length (filter (\<lambda>a. rangeMatches (ex_heap a) 3 ''foo'') [0, 1]) = 2 \<and>
   map_sum id disabledWarnings
     (report ex_problem
        (ex_result\<lparr>disabledRanges := Some [(''all'', [0, 1])],
                   config := ex_config\<lparr>cfg_ignoreDisables := True\<rparr>\<rparr>)) = Inr [(''foo'', 3)]"
  by (simp add: ex_result_def ex_problem_def ex_config_def ex_heap_def ruleSeverity_def
      ruleSeverityOption_def report_def reportWarning_def hasFix_def hasFixData_def lineInRange_def
      rangeMatches_def rulesInclude_def RULE_NAME_ALL_def emitWarning_def
      startLine_def reportRanges_def)


section \<open>The offset of the disabled ranges\<close>




section \<open>The severity of a problem\<close>

text \<open>
  C4, as the code has it. The severity is resolved in two steps: the severity of the
  problem when it is given (truthy), else the entry of the rule in \<open>ruleSeverities\<close>; a
  function is called with the message arguments (none when \<open>messageArgs\<close> is missing) and
  a falsy result is replaced by \<open>config.defaultSeverity\<close>, itself \<open>error\<close> when missing.
  Whenever one of the two is there, this is the severity of the specification. When the
  problem has no severity and the rule has no entry, the severity is \<open>undefined\<close>: the
  default severity is not used. A warning that \<open>report\<close> attaches carries the severity so
  resolved.
\<close>

theorem severity_precedence_without_default_step:
  "((severityGiven p \<or> map_of (ruleSeverities s) (p_ruleName p) \<noteq> None) \<longrightarrow>
      ruleSeverity p s = Some (spec_severity p s)) \<and>
   (\<not> severityGiven p \<and> map_of (ruleSeverities s) (p_ruleName p) = None \<longrightarrow>
      ruleSeverity p s = None) \<and>
   (\<forall>s'. report p s = Inr s' \<longrightarrow> messages s' \<noteq> messages s \<longrightarrow>
      (\<exists>m w. messages s' = messages s @ [(m, w)] \<and> wp_severity w = ruleSeverity p s))"
proof (intro conjI impI allI)
  fix s'
  assume "report p s = Inr s'" and "messages s' \<noteq> messages s"
  then have "messages s' = messages s @
       [(buildWarningMessage (chosenMessage p s) (p_messageArgs p), warningProps p (ruleSeverity p s))]"
    using report_messages by blast
  moreover have "wp_severity (warningProps p (ruleSeverity p s)) = ruleSeverity p s"
    by (simp add: warningProps_def)
  ultimately show "\<exists>m w. messages s' = messages s @ [(m, w)] \<and> wp_severity w = ruleSeverity p s"
    by blast
qed (simp_all add: ruleSeverity_given_or_listed ruleSeverity_undefined)

text \<open>
  The rule \<open>foo\<close> is listed with \<open>error\<close>; a severity function that returns nothing
  falls back to the default severity \<open>warning\<close>; the warning for line 9 carries \<open>error\<close>.
\<close>

theorem severity_precedence_without_default_step_witness:
  "map_of (ruleSeverities (ex_result :: fixerData stylelint)) (p_ruleName ex_problem) \<noteq> None \<and>
   ruleSeverity (ex_problem\<lparr>p_line := Some 9\<rparr>) (ex_result :: fixerData stylelint) = Some ''error'' \<and>
   severityGiven (ex_problem\<lparr>p_severity := Some (SevFn (\<lambda>args. None))\<rparr>) \<and>
   ruleSeverity (ex_problem\<lparr>p_severity := Some (SevFn (\<lambda>args. None))\<rparr>)
     (ex_result :: fixerData stylelint) = Some ''warning'' \<and>
   map_sum id (map (wp_severity \<circ> snd) \<circ> messages)
     (report (ex_problem\<lparr>p_line := Some 9\<rparr>) ex_result) = Inr [Some ''error'']"
proof -
  let ?p = "ex_problem\<lparr>p_line := Some 9\<rparr>"
  let ?s = "ex_result :: fixerData stylelint"
  let ?s' = "emitWarning ?p (Some ''error'') ?s"
  have run: "report ?p ?s = Inr ?s'"
    by (simp add: ex_result_def ex_problem_def ex_config_def ex_heap_def report_def
        reportWarning_def hasFix_def hasFixData_def startLine_def reportRanges_def
        RULE_NAME_ALL_def rangeMatches_def lineInRange_def ruleSeverity_def ruleSeverityOption_def)
  have new: "messages ?s' \<noteq> messages ?s"
    by (simp add: emitWarning_fields)
  have listed: "map_of (ruleSeverities ?s) (p_ruleName ?p) \<noteq> None"
    by (simp add: ex_result_def ex_problem_def)
  have given: "severityGiven (ex_problem\<lparr>p_severity := Some (SevFn (\<lambda>args. None))\<rparr>)"
    by (simp add: severityGiven_def)
  note thm1 = severity_precedence_without_default_step [of ?p ?s]
  note thm2 = severity_precedence_without_default_step
      [of "ex_problem\<lparr>p_severity := Some (SevFn (\<lambda>args. None))\<rparr>" ?s]
  have sev1: "ruleSeverity ?p ?s = Some (spec_severity ?p ?s)"
    using thm1 listed by blast
  have sev2: "ruleSeverity (ex_problem\<lparr>p_severity := Some (SevFn (\<lambda>args. None))\<rparr>) ?s =
      Some (spec_severity (ex_problem\<lparr>p_severity := Some (SevFn (\<lambda>args. None))\<rparr>) ?s)"
    using thm2 given by blast
  have "\<exists>m w. messages ?s' = messages ?s @ [(m, w)] \<and> wp_severity w = ruleSeverity ?p ?s"
    using thm1 run new by blast
  then have emitted: "map (wp_severity \<circ> snd) (messages ?s') = [ruleSeverity ?p ?s]"
    by (auto simp: ex_result_def)
  have v1: "spec_severity ?p ?s = ''error''"
    by (simp add: spec_severity_def severityGiven_def ex_problem_def ex_result_def)
  have v2: "spec_severity (ex_problem\<lparr>p_severity := Some (SevFn (\<lambda>args. None))\<rparr>) ?s = ''warning''"
    by (simp add: spec_severity_def severityGiven_def ex_problem_def ex_result_def ex_config_def
        defaultSeverity_def)
  show ?thesis
    using listed given sev1 sev2 emitted v1 v2 run by simp
qed

text \<open>
  The claim as stated fails for a problem without severity whose rule has no entry in
  \<open>ruleSeverities\<close>: with \<open>defaultSeverity\<close> set to \<open>warning\<close>, the warning is
  attached with an undefined severity.
\<close>

theorem missing_severity_is_undefined_counterexample:
  "p_severity ex_problem = None \<and>
   map_of (ruleSeverities (ex_result\<lparr>ruleSeverities := [], disabledRanges := None\<rparr> :: fixerData stylelint))
     (p_ruleName ex_problem) = None \<and>
   cfg_defaultSeverity (config (ex_result\<lparr>ruleSeverities := [], disabledRanges := None\<rparr> :: fixerData stylelint))
     = Some ''warning'' \<and>
   spec_severity ex_problem (ex_result\<lparr>ruleSeverities := [], disabledRanges := None\<rparr> :: fixerData stylelint)
     = ''warning'' \<and>
   map_sum id (map (wp_severity \<circ> snd) \<circ> messages)
     (report ex_problem (ex_result\<lparr>ruleSeverities := [], disabledRanges := None\<rparr>)) = Inr [None]"
  by (simp add: ex_result_def ex_problem_def ex_config_def severityGiven_def
      spec_severity_def defaultSeverity_def report_def reportWarning_def hasFix_def hasFixData_def
      startLine_def ruleSeverity_def ruleSeverityOption_def emitWarning_def warningProps_def)


section \<open>A problem without line\<close>





section \<open>Quiet mode\<close>

text \<open>
  C6. In quiet mode, a problem whose severity is not \<open>error\<close> is dropped: when \<open>report\<close>
  reaches the computation of the severity, it returns with the result unchanged, so no
  warning is attached and nothing is pushed to \<open>disabledWarnings\<close>. Nothing is assumed
  about the line or about the disabled ranges: the drop comes before the start line is
  looked at and before the ranges are scanned. Whatever path \<open>report\<close> takes in quiet
  mode for such a problem, when it returns, the warnings, \<open>disabledWarnings\<close> and the two
  flags are as before.
\<close>

theorem quiet_drops_before_suppression:
  assumes "quiet s" and "ruleSeverity p s \<noteq> Some ''error''"
  shows "(reachesSeverity (config s) p \<longrightarrow> report p s = Inr s) \<and>
         (\<forall>s'. report p s = Inr s' \<longrightarrow>
            messages s' = messages s \<and> disabledWarnings s' = disabledWarnings s \<and>
            stylelintError s' = stylelintError s \<and> stylelintWarning s' = stylelintWarning s)"
proof (cases "reachesSeverity (config s) p")
  case True
  then have "report p s = Inr s"
    using assms by (simp add: report_reaches reportWarning_quiet)
  then show ?thesis by auto
next
  case False
  from report_not_reaches[OF False] show ?thesis
    using False by (auto dest: report_applyFix_keeps)
qed

text \<open>
  Line 3 of the example lies in the range under \<open>all\<close>; with a severity of \<open>warning\<close> in
  quiet mode the result is returned as it was.
\<close>

theorem quiet_drops_before_suppression_witness:
  "quiet (ex_result\<lparr>quiet := True, ruleSeverities := [(''foo'', SevLit ''warning'')]\<rparr> :: fixerData stylelint) \<and>
   lineInRange (ex_heap 0) 3 \<and>
   report ex_problem (ex_result\<lparr>quiet := True, ruleSeverities := [(''foo'', SevLit ''warning'')]\<rparr>) =
     Inr (ex_result\<lparr>quiet := True, ruleSeverities := [(''foo'', SevLit ''warning'')]\<rparr>)"
  using quiet_drops_before_suppression
    [of "ex_result\<lparr>quiet := True, ruleSeverities := [(''foo'', SevLit ''warning'')]\<rparr>" ex_problem]
  by (simp add: ex_result_def ex_problem_def ex_config_def ex_heap_def ruleSeverity_def
      ruleSeverityOption_def reachesSeverity_def hasFix_def hasFixData_def lineInRange_def)


section \<open>The attempt of a deferred fix\<close>

text \<open>
  C7. A deferred fix whose start line lies inside a disabled range that applies to its
  rule is not to be called when \<open>ignoreDisables\<close> is not set, and its attempt is to be
  recorded with \<open>fixed: false\<close>. \<open>applyFix\<close> of fix.mjs does so; the \<open>applyFix\<close> that
  \<open>report\<close> calls does not, once the rule has a key of its own: the fix of \<open>foo\<close> on line
  3 lies in the range of the lines 1 to 5 under \<open>all\<close>, which applies to every rule, and
  \<open>report\<close> calls it and records it with \<open>fixed: true\<close>, while \<open>applyFix\<close> of fix.mjs,
  on the same result, does not call it.
\<close>

theorem report_runs_fix_inside_wildcard_range:
  "isInRange 3 (cb (ex_heap 0)) \<and>
   map_sum id calls
     (report (ex_problem\<lparr>p_fix := Some 7, p_start := Some (r_start (ex_range 3)),
                          p_end := Some (r_end (ex_range 3))\<rparr>)
        (ex_result\<lparr>config := ex_config\<lparr>cfg_fix := True\<rparr>,
                   disabledRanges := Some [(''all'', [0]), (''foo'', [4])]\<rparr>)) = Inr [7] \<and>
   map_sum id fixersData
     (report (ex_problem\<lparr>p_fix := Some 7, p_start := Some (r_start (ex_range 3)),
                          p_end := Some (r_end (ex_range 3))\<rparr>)
        (ex_result\<lparr>config := ex_config\<lparr>cfg_fix := True\<rparr>,
                   disabledRanges := Some [(''all'', [0]), (''foo'', [4])]\<rparr>)) =
     Inr [(''foo'', [\<lparr>fd_range = ex_range 3, fd_fixed = True\<rparr>])] \<and>
   map_sum id calls
     (applyFix 7
        (ex_result\<lparr>config := ex_config\<lparr>cfg_fix := True\<rparr>,
                   disabledRanges := Some [(''all'', [0]), (''foo'', [4])]\<rparr>)
        ''foo'' (ex_range 3)) = Inr []"
  by (simp add: ex_result_def ex_problem_def ex_config_def ex_heap_def ex_range_def
      report_def hasFix_def hasRangeData_def hasRange_def hasFixData_def fixRange_def
      report_applyFix_def applyFix_def fixRanges_def allRanges_def RULE_NAME_ALL_def cb_def
      addFixerData_def)

section \<open>Message formatting\<close>

text \<open>
  C8. A message that is a string is to be formatted by consuming its placeholders from
  left to right, one per argument: placeholder number \<open>i\<close> becomes argument number
  \<open>i\<close>. \<open>printfLike\<close> does so for the example of the specification, and leaves the
  second placeholder when one argument is given. But it searches the placeholder in the
  text produced so far, and lets \<open>replace\<close> expand the argument: with the arguments
  \<open>%s\<close> and \<open>b\<close>, the second argument replaces the placeholder that the first one
  wrote, and the second placeholder of the message stays although two arguments were
  supplied; the argument \<open>$&\<close> is replaced by the placeholder it was to replace.
\<close>

theorem printfLike_rescans_arguments:
  "printfLike ''Expected %s but found %s'' [JStr ''a'', JStr ''b''] = ''Expected a but found b'' \<and>
   printfLike ''Expected %s but found %s'' [JStr ''a''] = ''Expected a but found %s'' \<and>
   render [] [(CHR ''s'', '' and ''), (CHR ''s'', [])] = ''%s and %s'' \<and>
   spec_format [] [(CHR ''s'', '' and ''), (CHR ''s'', [])] (map js_String [JStr ''%s'', JStr ''b'']) =
     ''%s and b'' \<and>
   printfLike ''%s and %s'' [JStr ''%s'', JStr ''b''] = ''b and %s'' \<and>
   spec_format [] [(CHR ''s'', [])] (map js_String [JStr ''$&'']) = ''$&'' \<and>
   printfLike ''%s'' [JStr ''$&''] = ''%s''"
  by (simp add: printfLike_def js_replace_def)

section \<open>A pass that applies no fix\<close>

text \<open>
  C9. When \<open>fixersData\<close> is empty, or when no entry may be fixed (each entry judged
  against the ranges of its rule as they are before the pass), \<open>applyFixes\<close> returns the
  result as it was: every range object keeps its start and its end. When \<open>disabledRanges\<close>
  is undefined the destructuring throws, and nothing has been changed either.
\<close>

theorem applyFixes_without_eligible_fix_keeps_ranges:
  assumes "fixersData s = [] \<or>
           (\<forall>drs rule e. disabledRanges s = Some drs \<longrightarrow> rule \<in> set (fixersData s) \<longrightarrow>
              e \<in> set (snd rule) \<longrightarrow> \<not> mayFix (config s) (fixRanges (heap s) drs (fst rule)) e)"
  shows "applyFixes s = (if disabledRanges s = None then Inl TypeError else Inr s)"
proof (cases "disabledRanges s")
  case None
  then show ?thesis by (simp add: applyFixes_def)
next
  case (Some drs)
  have "\<forall>rule \<in> set (fixersData s). \<forall>e \<in> set (snd rule).
          \<not> mayFix (config s) (fixRanges (heap s) drs (fst rule)) e"
    using assms Some by auto
  then have "fold (applyRule drs) (fixersData s) s = s"
    by (rule fold_applyRule_skip)
  then show ?thesis using Some by (simp add: applyFixes_def)
qed

text \<open>
  An empty \<open>fixersData\<close>; and a rule with a fix on line 3, inside the range under \<open>all\<close>,
  and an unfixable one on line 9.
\<close>

theorem applyFixes_without_eligible_fix_keeps_ranges_witness:
  "applyFixes (ex_result :: fixEntry stylelint) = Inr ex_result \<and>
   applyFixes (ex_result\<lparr>fixersData := [(''foo'', [ex_entry 3 3 4, (ex_entry 9 9 10)\<lparr>fe_unfixable := True\<rparr>])]\<rparr>) =
     Inr (ex_result\<lparr>fixersData := [(''foo'', [ex_entry 3 3 4, (ex_entry 9 9 10)\<lparr>fe_unfixable := True\<rparr>])]\<rparr>)"
  using applyFixes_without_eligible_fix_keeps_ranges [of "ex_result :: fixEntry stylelint"]
    applyFixes_without_eligible_fix_keeps_ranges
      [of "ex_result\<lparr>fixersData := [(''foo'', [ex_entry 3 3 4, (ex_entry 9 9 10)\<lparr>fe_unfixable := True\<rparr>])]\<rparr>"]
  by (simp add: ex_result_def ex_entry_def ex_config_def ex_heap_def mayFix_def fixRanges_def
      allRanges_def RULE_NAME_ALL_def cb_def)


section \<open>The \<open>rules\<close> of a disabled range\<close>

text \<open>
  C10. On the reporting path, when every range of the consulted list that covers the line
  of the problem has \<open>rules\<close> defined without the name of the reported rule, the report is
  not suppressed and nothing is pushed to \<open>disabledWarnings\<close>: the warning is attached.
  Conversely, when \<open>report\<close> pushes to \<open>disabledWarnings\<close>, some consulted range covers
  the line and has \<open>rules\<close> undefined or holding the name of the rule.
\<close>

theorem rules_filter_on_reporting_path:
  assumes "reachesSeverity (config s) p"
    and "\<not> (quiet s \<and> ruleSeverity p s \<noteq> Some ''error'')"
    and "startLine p = Some l" and "l \<noteq> 0" and "disabledRanges s = Some drs"
  shows "((\<forall>a \<in> set (reportRanges drs (p_ruleName p)).
            lineInRange (heap s a) l \<longrightarrow>
            (\<exists>names. dr_rules (heap s a) = Some names \<and> p_ruleName p \<notin> set names)) \<longrightarrow>
          (\<exists>s'. report p s = Inr s' \<and> disabledWarnings s' = disabledWarnings s \<and>
             messages s' = messages s @
               [(buildWarningMessage (chosenMessage p s) (p_messageArgs p),
                 warningProps p (ruleSeverity p s))])) \<and>
         (\<forall>s'. report p s = Inr s' \<longrightarrow> disabledWarnings s' \<noteq> disabledWarnings s \<longrightarrow>
            (\<exists>a \<in> set (reportRanges drs (p_ruleName p)).
               lineInRange (heap s a) l \<and>
               (dr_rules (heap s a) = None \<or>
                (\<exists>names. dr_rules (heap s a) = Some names \<and> p_ruleName p \<in> set names))))"
proof (intro conjI impI allI)
  assume other: "\<forall>a \<in> set (reportRanges drs (p_ruleName p)).
            lineInRange (heap s a) l \<longrightarrow>
            (\<exists>names. dr_rules (heap s a) = Some names \<and> p_ruleName p \<notin> set names)"
  have "\<not> (\<exists>a \<in> set (reportRanges drs (p_ruleName p)). rangeMatches (heap s a) l (p_ruleName p))"
    using other by (auto simp: rangeMatches_def rulesInclude_def)
  then have "report p s = Inr (emitWarning p (ruleSeverity p s) s)"
    using report_scan[OF assms] by simp
  then show "\<exists>s'. report p s = Inr s' \<and> disabledWarnings s' = disabledWarnings s \<and>
             messages s' = messages s @
               [(buildWarningMessage (chosenMessage p s) (p_messageArgs p),
                 warningProps p (ruleSeverity p s))]"
    by (simp add: emitWarning_fields)
next
  fix s'
  assume r: "report p s = Inr s'" and d: "disabledWarnings s' \<noteq> disabledWarnings s"
  have "\<exists>a \<in> set (reportRanges drs (p_ruleName p)). rangeMatches (heap s a) l (p_ruleName p)"
  proof (rule ccontr)
    assume "\<not> ?thesis"
    then have "report p s = Inr (emitWarning p (ruleSeverity p s) s)"
      using report_scan[OF assms] by simp
    with r d show False by (auto simp: emitWarning_fields)
  qed
  then show "\<exists>a \<in> set (reportRanges drs (p_ruleName p)).
               lineInRange (heap s a) l \<and>
               (dr_rules (heap s a) = None \<or>
                (\<exists>names. dr_rules (heap s a) = Some names \<and> p_ruleName p \<in> set names))"
    by (auto simp: rangeMatches_def rulesInclude_def split: option.splits)
qed

text \<open>
  The range at address 2 covers the lines 1 to 5 and names the rule \<open>bar\<close> only: the
  problem of \<open>foo\<close> on line 3 is reported and not logged.
\<close>

theorem rules_filter_on_reporting_path_witness:
  "lineInRange (ex_heap 2) 3 \<and> dr_rules (ex_heap 2) = Some [''bar''] \<and>
   map_sum id disabledWarnings
     (report ex_problem (ex_result\<lparr>disabledRanges := Some [(''foo'', [2])]\<rparr>)) = Inr [] \<and>
   map_sum id (map fst \<circ> messages)
     (report ex_problem (ex_result\<lparr>disabledRanges := Some [(''foo'', [2])]\<rparr>)) = Inr [''Unexpected x'']"
  using rules_filter_on_reporting_path
    [of "ex_result\<lparr>disabledRanges := Some [(''foo'', [2])]\<rparr>" ex_problem 3 "[(''foo'', [2])]"]
  by (auto simp: ex_result_def ex_problem_def ex_config_def ex_heap_def ruleSeverity_def
      ruleSeverityOption_def reachesSeverity_def hasFix_def hasFixData_def lineInRange_def
      startLine_def reportRanges_def chosenMessage_def buildWarningMessage_def printfLike_def
      js_replace_def)


end
